theory Spec2Isabelle
  imports Main
begin

section \<open>Strings\<close>

text \<open>
  A JavaScript string is a sequence of UTF-16 code units. Here a \<^typ>\<open>char\<close> stands for one
  code unit below 256, so \<^const>\<open>length\<close> is the \<^verbatim>\<open>length\<close> property of the string.
  Among these code units the white space of \<^verbatim>\<open>String.prototype.trim\<close> and of the regular
  expression class \<^verbatim>\<open>\s\<close> is the same set: TAB, LF, VT, FF, CR, SPACE and NBSP.
\<close>

definition is_whitespace :: "char \<Rightarrow> bool" where
  "is_whitespace c = (of_char c \<in> set [9, 10, 11, 12, 13, 32, 160 :: nat])"

definition is_letter :: "char \<Rightarrow> bool" where
  "is_letter c = (let n = of_char c :: nat in (65 \<le> n \<and> n \<le> 90) \<or> (97 \<le> n \<and> n \<le> 122))"

definition is_digit :: "char \<Rightarrow> bool" where
  "is_digit c = (let n = of_char c :: nat in 48 \<le> n \<and> n \<le> 57)"

definition trim :: "string \<Rightarrow> string" where
  "trim s = rev (dropWhile is_whitespace (rev (dropWhile is_whitespace s)))"

fun join :: "string \<Rightarrow> string list \<Rightarrow> string" where
  "join sep [] = []"
| "join sep [x] = x"
| "join sep (x # y # ys) = x @ sep @ join sep (y # ys)"

text \<open>Truthiness of an optional string property: \<^verbatim>\<open>undefined\<close> and \<^verbatim>\<open>""\<close> are falsy.\<close>

definition truthy :: "string option \<Rightarrow> bool" where
  "truthy v = (case v of None \<Rightarrow> False | Some s \<Rightarrow> s \<noteq> [])"

section \<open>Objects used as dictionaries\<close>

text \<open>
  A plain object is the list of its own properties in the order \<^verbatim>\<open>Object.keys\<close>,
  \<^verbatim>\<open>Object.entries\<close> and \<^verbatim>\<open>JSON.stringify\<close> enumerate them: array-index keys first, in
  ascending numeric order, then every other key in the order of its creation. Its
  prototype is \<^verbatim>\<open>Object.prototype\<close>, as it is for an object literal and for every object
  that \<^verbatim>\<open>JSON.parse\<close> returns.
\<close>

type_synonym 'v jsobject = "(string \<times> 'v) list"

definition index_value :: "string \<Rightarrow> int" where
  "index_value s = foldl (\<lambda>n c. 10 * n + (of_char c - 48)) 0 s"

definition is_array_index :: "string \<Rightarrow> bool" where
  "is_array_index s =
     (s \<noteq> [] \<and> list_all is_digit s \<and> (s = ''0'' \<or> hd s \<noteq> CHR ''0'') \<and> index_value s < 4294967295)"

text \<open>The property names of \<^verbatim>\<open>Object.prototype\<close>. All are functions but \<^verbatim>\<open>__proto__\<close>.\<close>

definition prototype_names :: "string list" where
  "prototype_names = [''constructor'', ''__defineGetter__'', ''__defineSetter__'', ''hasOwnProperty'',
     ''__lookupGetter__'', ''__lookupSetter__'', ''isPrototypeOf'', ''propertyIsEnumerable'',
     ''toString'', ''valueOf'', ''__proto__'', ''toLocaleString'']"

text \<open>
  What \<^verbatim>\<open>obj[k]\<close> evaluates to: an own property, else a function inherited from
  \<^verbatim>\<open>Object.prototype\<close>, else (for \<^verbatim>\<open>__proto__\<close>) the object \<^verbatim>\<open>Object.prototype\<close> itself, else
  \<^verbatim>\<open>undefined\<close>. Only the last is falsy when the own properties hold objects.
\<close>

datatype 'v property = Missing | Function | Prototype | Own 'v

definition js_own :: "'v jsobject \<Rightarrow> string \<Rightarrow> 'v option" where
  "js_own obj k = map_of obj k"

definition js_get :: "'v jsobject \<Rightarrow> string \<Rightarrow> 'v property" where
  "js_get obj k =
     (case js_own obj k of
        Some v \<Rightarrow> Own v
      | None \<Rightarrow>
          if k = ''__proto__'' then Prototype
          else if k \<in> set prototype_names then Function
          else Missing)"

definition js_keys :: "'v jsobject \<Rightarrow> string list" where
  "js_keys obj = map fst obj"

definition js_delete :: "'v jsobject \<Rightarrow> string \<Rightarrow> 'v jsobject" where
  "js_delete obj k = filter (\<lambda>kv. fst kv \<noteq> k) obj"

fun insert_index :: "'v jsobject \<Rightarrow> string \<Rightarrow> 'v \<Rightarrow> 'v jsobject" where
  "insert_index [] k v = [(k, v)]"
| "insert_index (kv # obj) k v =
     (if is_array_index (fst kv) \<and> index_value (fst kv) < index_value k
      then kv # insert_index obj k v
      else (k, v) # kv # obj)"

text \<open>
  The own properties after \<^verbatim>\<open>obj[k] = v\<close>. Assigning to \<^verbatim>\<open>__proto__\<close>, when it is not an
  own property, creates none: it replaces the prototype when \<open>v\<close> is an object and does
  nothing when \<open>v\<close> is a string.
\<close>

definition js_set :: "'v jsobject \<Rightarrow> string \<Rightarrow> 'v \<Rightarrow> 'v jsobject" where
  "js_set obj k v =
     (if k \<in> set (js_keys obj) then map (\<lambda>kv. if fst kv = k then (k, v) else kv) obj
      else if k = ''__proto__'' then obj
      else if is_array_index k then insert_index obj k v
      else obj @ [(k, v)])"

section \<open>Validation (shared/validation)\<close>

text \<open>
  Modelled from the spec: the declarations of \<^verbatim>\<open>ApiProvider\<close>, \<^verbatim>\<open>ModelInfo\<close> (shared/api),
  \<^verbatim>\<open>Mode\<close> (prompts/types) and \<^verbatim>\<open>vscode.LanguageModelChatSelector\<close> are not among the
  sources. A provider and a mode are strings, as they are in a stored document. A model
  description or a model selector is an object that the code only passes on or tests for
  presence: here, the list of its properties rendered as text.
\<close>

datatype jsopaque = JsObject "(string \<times> string) list"

record ValidationResult =
  isValid :: bool
  errors :: "string list"

record ProfileSpecificSettings =
  id' :: "string option"
  apiProvider :: "string option"
  apiModelId :: "string option"
  apiKey :: "string option"
  glamaApiKey :: "string option"
  glamaModelId :: "string option"
  glamaModelInfo :: "jsopaque option"
  openRouterApiKey :: "string option"
  awsAccessKey :: "string option"
  awsSecretKey :: "string option"
  awsSessionToken :: "string option"
  awsRegion :: "string option"
  awsUseCrossRegionInference :: "bool option"
  vertexProjectId :: "string option"
  vertexRegion :: "string option"
  openAiBaseUrl :: "string option"
  openAiApiKey :: "string option"
  openAiModelId :: "string option"
  ollamaModelId :: "string option"
  ollamaBaseUrl :: "string option"
  lmStudioModelId :: "string option"
  lmStudioBaseUrl :: "string option"
  anthropicBaseUrl :: "string option"
  geminiApiKey :: "string option"
  openAiNativeApiKey :: "string option"
  deepSeekApiKey :: "string option"
  mistralApiKey :: "string option"
  azureApiVersion :: "string option"
  openAiStreamingEnabled :: "bool option"
  openRouterModelId :: "string option"
  openRouterModelInfo :: "jsopaque option"
  openRouterUseMiddleOutTransform :: "bool option"
  vsCodeLmModelSelector :: "jsopaque option"

text \<open>
  Modelled from the spec: the declaration of \<^verbatim>\<open>ApiConfiguration\<close> (shared/api) is not among
  the sources. It is the "full provider configuration" a caller passes: the profile fields
  (with an optional \<^verbatim>\<open>id\<close>) and whatever other fields the caller bundled in.
\<close>

record ApiConfiguration = ProfileSpecificSettings +
  otherFields :: "(string \<times> string) list"

definition requiredField :: "string option \<Rightarrow> string \<Rightarrow> string list" where
  "requiredField v msg = (if \<not> truthy v then [msg] else [])"

definition validateProfileSettings :: "'a ProfileSpecificSettings_scheme \<Rightarrow> ValidationResult" where
  "validateProfileSettings config =
     (let errors1 =
        (if apiProvider config = Some ''anthropic'' then
           requiredField (apiKey config) ''API key is required for Anthropic''
         else if apiProvider config = Some ''openai'' then
           requiredField (openAiApiKey config) ''API key is required for OpenAI'' @
           requiredField (openAiBaseUrl config) ''Base URL is required for OpenAI''
         else if apiProvider config = Some ''glama'' then
           requiredField (glamaApiKey config) ''API key is required for Glama''
         else if apiProvider config = Some ''openrouter'' then
           requiredField (openRouterApiKey config) ''API key is required for OpenRouter''
         else if apiProvider config = Some ''bedrock'' then
           requiredField (awsAccessKey config) ''Access key is required for AWS Bedrock'' @
           requiredField (awsSecretKey config) ''Secret key is required for AWS Bedrock''
         else if apiProvider config = Some ''vertex'' then
           requiredField (vertexProjectId config) ''Project ID is required for Vertex AI'' @
           requiredField (vertexRegion config) ''Region is required for Vertex AI''
         else if apiProvider config = Some ''gemini'' then
           requiredField (geminiApiKey config) ''API key is required for Gemini''
         else if apiProvider config = Some ''openai-native'' then
           requiredField (openAiNativeApiKey config) ''API key is required for OpenAI Native''
         else if apiProvider config = Some ''deepseek'' then
           requiredField (deepSeekApiKey config) ''API key is required for DeepSeek''
         else if apiProvider config = Some ''mistral'' then
           requiredField (mistralApiKey config) ''API key is required for Mistral''
         else if apiProvider config = Some ''ollama'' \<or> apiProvider config = Some ''lmstudio'' then
           []
         else if apiProvider config = Some ''vscode-lm'' then
           (if vsCodeLmModelSelector config = None
            then [''Model selector is required for VS Code Language Model''] else [])
         else [''Invalid API provider'']);
        errors2 =
        (if truthy (apiModelId config) \<and> trim (case apiModelId config of Some s \<Rightarrow> s | None \<Rightarrow> []) = []
         then errors1 @ [''Model ID cannot be empty if specified''] else errors1)
      in \<lparr>isValid = (length errors2 = 0), errors = errors2\<rparr>)"

definition name_char :: "char \<Rightarrow> bool" where
  "name_char c = (is_letter c \<or> is_digit c \<or> is_whitespace c \<or> c = CHR ''-'' \<or> c = CHR ''_'')"

text \<open>The test \<^verbatim>\<open>/^[a-zA-Z0-9\s-_]+$/.test(name)\<close>.\<close>

definition name_pattern :: "string \<Rightarrow> bool" where
  "name_pattern name = (name \<noteq> [] \<and> list_all name_char name)"

definition validateProfileName :: "string \<Rightarrow> string list \<Rightarrow> ValidationResult" where
  "validateProfileName name existingNames =
     (let errs =
        (if name = [] then [''Profile name is required'']
         else if length (trim name) = 0 then [''Profile name cannot be empty'']
         else if name \<in> set existingNames then [''Profile name already exists'']
         else if length name > 50 then [''Profile name cannot be longer than 50 characters'']
         else if \<not> name_pattern name then
           [''Profile name can only contain letters, numbers, spaces, hyphens, and underscores'']
         else [])
      in \<lparr>isValid = (length errs = 0), errors = errs\<rparr>)"

definition requiresReauth :: "string list" where
  "requiresReauth = [''anthropic'', ''openai'', ''glama'', ''openrouter'', ''bedrock'', ''vertex'',
     ''gemini'', ''openai-native'', ''deepseek'', ''mistral'']"

definition includes_provider :: "string list \<Rightarrow> string option \<Rightarrow> bool" where
  "includes_provider xs v = (case v of None \<Rightarrow> False | Some p \<Rightarrow> p \<in> set xs)"

definition validateProfileTransition ::
  "'a ProfileSpecificSettings_scheme \<Rightarrow> 'b ProfileSpecificSettings_scheme \<Rightarrow> ValidationResult" where
  "validateProfileTransition fromConfig toConfig =
     (let errors1 =
        (if apiProvider fromConfig \<noteq> apiProvider toConfig \<and>
            includes_provider requiresReauth (apiProvider fromConfig) \<and>
            includes_provider requiresReauth (apiProvider toConfig)
         then [''Switching between these providers may require re-authentication''] else []);
        errors2 =
        (if truthy (apiModelId fromConfig) \<and> apiProvider toConfig \<noteq> apiProvider fromConfig
         then errors1 @ [''Model ID may not be compatible with the new provider''] else errors1)
      in \<lparr>isValid = (length errors2 = 0), errors = errors2\<rparr>)"

subsection \<open>The rules of name validation, as the specification words them\<close>

text \<open>Every rule that fails for a name, in the order in which the rules are checked.\<close>

definition failed_rules :: "string \<Rightarrow> string list \<Rightarrow> string list" where
  "failed_rules name existingNames =
     (if name = [] then [''Profile name is required''] else []) @
     (if trim name = [] then [''Profile name cannot be empty''] else []) @
     (if name \<in> set existingNames then [''Profile name already exists''] else []) @
     (if length name > 50 then [''Profile name cannot be longer than 50 characters''] else []) @
     (if \<not> name_pattern name then
        [''Profile name can only contain letters, numbers, spaces, hyphens, and underscores'']
      else [])"

text \<open>The character set \<^verbatim>\<open>[A-Za-z0-9 _-]\<close> of the specification: the only white space is SPACE.\<close>

definition spec_name_char :: "char \<Rightarrow> bool" where
  "spec_name_char c = (is_letter c \<or> is_digit c \<or> c = CHR '' '' \<or> c = CHR ''_'' \<or> c = CHR ''-'')"

definition spec_name_invalid :: "string \<Rightarrow> string list \<Rightarrow> bool" where
  "spec_name_invalid candidate existingNames =
     (trim candidate = [] \<or> length candidate > 50 \<or> \<not> list_all spec_name_char candidate \<or>
      candidate \<in> set existingNames)"

section \<open>The configuration manager (core/config/ConfigManager)\<close>

record GlobalSettings =
  currentApiConfigName :: "string option"
  alwaysAllowReadOnly :: "bool option"
  alwaysAllowWrite :: "bool option"
  alwaysAllowExecute :: "bool option"
  alwaysAllowBrowser :: "bool option"
  alwaysAllowMcp :: "bool option"
  modeApiConfigs :: "string jsobject option"

text \<open>
  The root object of a document. A stored document may lack \<^verbatim>\<open>globalSettings\<close> or
  \<^verbatim>\<open>profiles\<close>; a document of the old structure has \<^verbatim>\<open>apiConfigs\<close> and, at the top level,
  \<^verbatim>\<open>currentApiConfigName\<close> and \<^verbatim>\<open>modeApiConfigs\<close>, which \<^verbatim>\<open>initConfig\<close> reads through
  \<^verbatim>\<open>oldConfig\<close>. \<^verbatim>\<open>JSON.stringify\<close> followed by \<^verbatim>\<open>JSON.parse\<close> is the identity on this
  representation: a property holding \<^verbatim>\<open>undefined\<close> is \<^const>\<open>None\<close>.
\<close>

record ApiConfigData =
  globalSettings :: "GlobalSettings option"
  profiles :: "ApiConfiguration jsobject option"
  apiConfigs :: "ApiConfiguration jsobject option"
  oldCurrentApiConfigName :: "string option"
  oldModeApiConfigs :: "string jsobject option"

text \<open>
  What \<^verbatim>\<open>JSON.parse\<close> returns for a stored text: \<^verbatim>\<open>null\<close>, another falsy value (\<^verbatim>\<open>false\<close>,
  \<^verbatim>\<open>0\<close>, the empty string) or an object; and the stored text itself, which may fail to
  parse. A text that parses to a non-zero number, a non-empty string or \<^verbatim>\<open>true\<close> is not
  modelled.
\<close>

datatype parsed = Null | Falsy | Document ApiConfigData

datatype content = Malformed | Json parsed

text \<open>
  \<^verbatim>\<open>OutsideModel\<close> is not an error of the program: it marks the few paths of
  \<^verbatim>\<open>RenameConfig\<close> on which the program goes on with an object whose prototype is no longer
  \<^verbatim>\<open>Object.prototype\<close>, or leaves a function as an own property of \<^verbatim>\<open>defaultConfig\<close>. What
  the program does there is not described.
\<close>

datatype error =
    TypeError
  | SyntaxError
  | ConfigNotFound string
  | InvalidConfiguration "string list"
  | InvalidProfileName "string list"
  | CannotDeleteLast
  | Failed string error
  | OutsideModel

text \<open>
  The state of a manager: the text stored under the key \<^verbatim>\<open>roo_cline_config_api_config\<close>
  (\<^const>\<open>None\<close> when the store has none, or the empty text), the object \<^verbatim>\<open>defaultConfig\<close>,
  the number of identifiers drawn from \<^verbatim>\<open>Math.random\<close> so far, and the lines written with
  \<^verbatim>\<open>console.warn\<close>. The store itself never fails.
\<close>

record manager =
  secrets :: "content option"
  defaultConfig :: ApiConfigData
  generated :: nat
  console :: "string list"

text \<open>
  \<^verbatim>\<open>generateId\<close> takes its value from \<^verbatim>\<open>Math.random\<close>: the function \<open>rng\<close> gives the
  identifier that the \<open>n\<close>-th call returns. Nothing is assumed about these values.
\<close>

definition generateId :: "(nat \<Rightarrow> string) \<Rightarrow> manager \<Rightarrow> string \<times> manager" where
  "generateId rng m = (rng (generated m), m\<lparr>generated := Suc (generated m)\<rparr>)"

definition onlyId :: "string option \<Rightarrow> ApiConfiguration" where
  "onlyId i = \<lparr>id' = i, apiProvider = None, apiModelId = None, apiKey = None, glamaApiKey = None,
     glamaModelId = None, glamaModelInfo = None, openRouterApiKey = None, awsAccessKey = None,
     awsSecretKey = None, awsSessionToken = None, awsRegion = None,
     awsUseCrossRegionInference = None, vertexProjectId = None, vertexRegion = None,
     openAiBaseUrl = None, openAiApiKey = None, openAiModelId = None, ollamaModelId = None,
     ollamaBaseUrl = None, lmStudioModelId = None, lmStudioBaseUrl = None, anthropicBaseUrl = None,
     geminiApiKey = None, openAiNativeApiKey = None, deepSeekApiKey = None, mistralApiKey = None,
     azureApiVersion = None, openAiStreamingEnabled = None, openRouterModelId = None,
     openRouterModelInfo = None, openRouterUseMiddleOutTransform = None,
     vsCodeLmModelSelector = None, otherFields = []\<rparr>"

definition onlyCurrent :: "string option \<Rightarrow> GlobalSettings" where
  "onlyCurrent n = \<lparr>currentApiConfigName = n, alwaysAllowReadOnly = None, alwaysAllowWrite = None,
     alwaysAllowExecute = None, alwaysAllowBrowser = None, alwaysAllowMcp = None,
     modeApiConfigs = None\<rparr>"

text \<open>The field initialisers of the class: \<^verbatim>\<open>defaultConfig\<close> draws the first identifier.\<close>

definition newManager :: "(nat \<Rightarrow> string) \<Rightarrow> content option \<Rightarrow> manager" where
  "newManager rng store =
     \<lparr>secrets = store,
      defaultConfig = \<lparr>globalSettings = Some (onlyCurrent (Some ''default'')),
                       profiles = Some [(''default'', onlyId (Some (rng 0)))],
                       apiConfigs = None, oldCurrentApiConfigName = None, oldModeApiConfigs = None\<rparr>,
      generated = 1,
      console = []\<rparr>"

text \<open>
  \<^verbatim>\<open>readConfig\<close> returns \<^verbatim>\<open>defaultConfig\<close> when there is no text; it throws when the text
  does not parse and when it parses to \<^verbatim>\<open>null\<close>, whose \<^verbatim>\<open>globalSettings\<close> it reads. The
  result \<^const>\<open>None\<close> is a falsy value other than \<^verbatim>\<open>null\<close>.
\<close>

definition readConfig :: "manager \<Rightarrow> error + ApiConfigData option" where
  "readConfig m =
     (case secrets m of
        None \<Rightarrow> Inr (Some (defaultConfig m))
      | Some Malformed \<Rightarrow> Inl (Failed ''Failed to read config from secrets'' SyntaxError)
      | Some (Json Null) \<Rightarrow> Inl (Failed ''Failed to read config from secrets'' TypeError)
      | Some (Json Falsy) \<Rightarrow> Inr None
      | Some (Json (Document config)) \<Rightarrow> Inr (Some config))"

definition writeConfig :: "manager \<Rightarrow> ApiConfigData \<Rightarrow> manager" where
  "writeConfig m config = m\<lparr>secrets := Some (Json (Document config))\<rparr>"

text \<open>
  When the store is empty \<^verbatim>\<open>readConfig\<close> returns \<^verbatim>\<open>this.defaultConfig\<close> itself, so what an
  operation then assigns into the object it read is assigned into \<^verbatim>\<open>defaultConfig\<close>. A state
  holds the own properties of \<^verbatim>\<open>defaultConfig\<close> that \<^verbatim>\<open>JSON.stringify\<close> would write. After a
  write the store has a text, and no operation removes it, so \<^verbatim>\<open>defaultConfig\<close> is not read
  again.
\<close>

definition aliased :: "manager \<Rightarrow> bool" where
  "aliased m = (secrets m = None)"

definition mutate :: "bool \<Rightarrow> manager \<Rightarrow> ApiConfigData \<Rightarrow> manager" where
  "mutate al m config = (if al then m\<lparr>defaultConfig := config\<rparr> else m)"

definition warn :: "manager \<Rightarrow> string \<Rightarrow> manager" where
  "warn m line = m\<lparr>console := console m @ [line]\<rparr>"

definition extractProfileSettings ::
  "(nat \<Rightarrow> string) \<Rightarrow> 'a ProfileSpecificSettings_scheme \<Rightarrow> manager \<Rightarrow> ApiConfiguration \<times> manager" where
  "extractProfileSettings rng apiConfiguration m =
     (let (i, m') = (case id' apiConfiguration of
                       None \<Rightarrow> generateId rng m
                     | Some s \<Rightarrow> if s \<noteq> [] then (s, m) else generateId rng m)
      in (\<lparr>id' = Some i,
           apiProvider = apiProvider apiConfiguration,
           apiModelId = apiModelId apiConfiguration,
           apiKey = apiKey apiConfiguration,
           glamaApiKey = glamaApiKey apiConfiguration,
           glamaModelId = glamaModelId apiConfiguration,
           glamaModelInfo = glamaModelInfo apiConfiguration,
           openRouterApiKey = openRouterApiKey apiConfiguration,
           awsAccessKey = awsAccessKey apiConfiguration,
           awsSecretKey = awsSecretKey apiConfiguration,
           awsSessionToken = awsSessionToken apiConfiguration,
           awsRegion = awsRegion apiConfiguration,
           awsUseCrossRegionInference = awsUseCrossRegionInference apiConfiguration,
           vertexProjectId = vertexProjectId apiConfiguration,
           vertexRegion = vertexRegion apiConfiguration,
           openAiBaseUrl = openAiBaseUrl apiConfiguration,
           openAiApiKey = openAiApiKey apiConfiguration,
           openAiModelId = openAiModelId apiConfiguration,
           ollamaModelId = ollamaModelId apiConfiguration,
           ollamaBaseUrl = ollamaBaseUrl apiConfiguration,
           lmStudioModelId = lmStudioModelId apiConfiguration,
           lmStudioBaseUrl = lmStudioBaseUrl apiConfiguration,
           anthropicBaseUrl = anthropicBaseUrl apiConfiguration,
           geminiApiKey = geminiApiKey apiConfiguration,
           openAiNativeApiKey = openAiNativeApiKey apiConfiguration,
           deepSeekApiKey = deepSeekApiKey apiConfiguration,
           mistralApiKey = mistralApiKey apiConfiguration,
           azureApiVersion = azureApiVersion apiConfiguration,
           openAiStreamingEnabled = openAiStreamingEnabled apiConfiguration,
           openRouterModelId = openRouterModelId apiConfiguration,
           openRouterModelInfo = openRouterModelInfo apiConfiguration,
           openRouterUseMiddleOutTransform = openRouterUseMiddleOutTransform apiConfiguration,
           vsCodeLmModelSelector = vsCodeLmModelSelector apiConfiguration,
           otherFields = []\<rparr>, m'))"

text \<open>
  \<^verbatim>\<open>profileSettingsToApiConfig\<close>: a copy of the own properties of the settings. What is
  looked up under a name may be inherited: a function or \<^verbatim>\<open>Object.prototype\<close> has none of
  the properties of a profile and no own enumerable property.
\<close>

definition profileSettingsToApiConfig :: "ApiConfiguration \<Rightarrow> ApiConfiguration" where
  "profileSettingsToApiConfig settings = settings"

definition asSettings :: "ApiConfiguration property \<Rightarrow> ApiConfiguration" where
  "asSettings v = (case v of Own settings \<Rightarrow> settings | _ \<Rightarrow> onlyId None)"

subsection \<open>initConfig\<close>

text \<open>The loop that migrates each profile of the old structure into \<^verbatim>\<open>newConfig.profiles\<close>.\<close>

fun migrateProfiles ::
  "(nat \<Rightarrow> string) \<Rightarrow> ApiConfiguration jsobject \<Rightarrow> ApiConfiguration jsobject \<Rightarrow> manager
   \<Rightarrow> ApiConfiguration jsobject \<times> manager" where
  "migrateProfiles rng [] acc m = (acc, m)"
| "migrateProfiles rng ((name, apiConfig) # rest) acc m =
     (let (profileSettings, m1) = extractProfileSettings rng apiConfig m
      in migrateProfiles rng rest (js_set acc name profileSettings) m1)"

text \<open>The loop that gives an identifier to each profile without one; the flag is \<^verbatim>\<open>needsMigration\<close>.\<close>

fun ensureIds ::
  "(nat \<Rightarrow> string) \<Rightarrow> ApiConfiguration jsobject \<Rightarrow> manager
   \<Rightarrow> ApiConfiguration jsobject \<times> bool \<times> manager" where
  "ensureIds rng [] m = ([], False, m)"
| "ensureIds rng ((name, profile) # rest) m =
     (if \<not> truthy (id' profile) then
        (let (i, m1) = generateId rng m;
             (rest', changed, m2) = ensureIds rng rest m1
         in ((name, profile\<lparr>id' := Some i\<rparr>) # rest', True, m2))
      else
        (let (rest', changed, m2) = ensureIds rng rest m
         in ((name, profile) # rest', changed, m2)))"

definition migrateOld :: "(nat \<Rightarrow> string) \<Rightarrow> ApiConfigData \<Rightarrow> manager \<Rightarrow> bool \<times> manager" where
  "migrateOld rng config m =
     (case apiConfigs config of
        None \<Rightarrow> (False, m)
      | Some old \<Rightarrow>
          (let (migrated, m1) = migrateProfiles rng old [] m;
               newConfig =
                 \<lparr>globalSettings = Some
                    ((onlyCurrent
                       (if truthy (oldCurrentApiConfigName config) then oldCurrentApiConfigName config
                        else Some ''default''))
                     \<lparr>modeApiConfigs :=
                        Some (case oldModeApiConfigs config of None \<Rightarrow> [] | Some modes \<Rightarrow> modes)\<rparr>),
                  profiles = Some migrated,
                  apiConfigs = None, oldCurrentApiConfigName = None, oldModeApiConfigs = None\<rparr>
           in (True, writeConfig m1 newConfig)))"

definition ensureAllIds ::
  "(nat \<Rightarrow> string) \<Rightarrow> bool \<Rightarrow> bool \<Rightarrow> ApiConfigData \<Rightarrow> manager \<Rightarrow> error + ApiConfigData \<times> manager" where
  "ensureAllIds rng al needsMigration config m =
     (if needsMigration then Inr (config, m)
      else
        (case profiles config of
           None \<Rightarrow> Inl TypeError
         | Some ps \<Rightarrow>
             (let (ps', changed, m1) = ensureIds rng ps m;
                  config' = config\<lparr>profiles := Some ps'\<rparr>
              in if changed then Inr (config', writeConfig (mutate al m1 config') config')
                 else Inr (config, m1))))"

definition ensureGlobalSettings :: "bool \<Rightarrow> ApiConfigData \<Rightarrow> manager \<Rightarrow> error + manager" where
  "ensureGlobalSettings al config m =
     (if globalSettings config = None then
        (case profiles config of
           None \<Rightarrow> Inl TypeError
         | Some ps \<Rightarrow>
             (let config' = config\<lparr>globalSettings := Some (onlyCurrent
                    (if js_get ps ''default'' \<noteq> Missing then Some ''default''
                     else (case js_keys ps of [] \<Rightarrow> None | k # ks \<Rightarrow> Some k)))\<rparr>
              in Inr (writeConfig (mutate al m config') config')))
      else Inr m)"

definition initConfig :: "(nat \<Rightarrow> string) \<Rightarrow> manager \<Rightarrow> (error + unit) \<times> manager" where
  "initConfig rng m =
     (case readConfig m of
        Inl e \<Rightarrow> (Inl (Failed ''Failed to initialize config'' e), m)
      | Inr None \<Rightarrow> (Inr (), writeConfig m (defaultConfig m))
      | Inr (Some config) \<Rightarrow>
          (let (needsMigration, m1) = migrateOld rng config m
           in case ensureAllIds rng (aliased m) needsMigration config m1 of
                Inl e \<Rightarrow> (Inl (Failed ''Failed to initialize config'' e), m1)
              | Inr (config2, m2) \<Rightarrow>
                  (case ensureGlobalSettings (aliased m) config2 m2 of
                     Inl e \<Rightarrow> (Inl (Failed ''Failed to initialize config'' e), m2)
                   | Inr m3 \<Rightarrow> (Inr (), m3))))"

subsection \<open>SaveConfig and LoadConfig\<close>

definition SaveConfig ::
  "(nat \<Rightarrow> string) \<Rightarrow> string \<Rightarrow> 'a ProfileSpecificSettings_scheme \<Rightarrow> manager \<Rightarrow> (error + unit) \<times> manager" where
  "SaveConfig rng name config m =
     (case readConfig m of
        Inl e \<Rightarrow> (Inl (Failed ''Failed to save config'' e), m)
      | Inr currentConfig \<Rightarrow>
          (let (profileSettings, m1) = extractProfileSettings rng config m;
               settingsValidation = validateProfileSettings profileSettings
           in if \<not> isValid settingsValidation then
                (Inl (Failed ''Failed to save config'' (InvalidConfiguration (errors settingsValidation))), m1)
              else
                (case currentConfig of
                   None \<Rightarrow> (Inl (Failed ''Failed to save config'' TypeError), m1)
                 | Some doc \<Rightarrow>
                     (case profiles doc of
                        None \<Rightarrow> (Inl (Failed ''Failed to save config'' TypeError), m1)
                      | Some ps \<Rightarrow>
                          (let existingNames = filter (\<lambda>n. n \<noteq> name) (js_keys ps);
                               nameValidation = validateProfileName name existingNames
                           in if \<not> isValid nameValidation then
                                (Inl (Failed ''Failed to save config''
                                       (InvalidProfileName (errors nameValidation))), m1)
                              else
                                (let m2 =
                                   (if js_get ps name = Missing then m1
                                    else
                                      (let transitionValidation =
                                             validateProfileTransition (asSettings (js_get ps name))
                                               profileSettings
                                       in if \<not> isValid transitionValidation then
                                            warn m1 (''Profile transition warnings: '' @
                                                     join '', '' (errors transitionValidation))
                                          else m1));
                                     doc' = doc\<lparr>profiles := Some (js_set ps name profileSettings)\<rparr>
                                 in (Inr (), writeConfig (mutate (aliased m) m2 doc') doc')))))))"


subsection \<open>DeleteConfig\<close>

text \<open>
  The property \<^verbatim>\<open>id\<close> of what was looked up under a name: reading it from \<^verbatim>\<open>undefined\<close> is a
  \<^verbatim>\<open>TypeError\<close>; a function and \<^verbatim>\<open>Object.prototype\<close> have none.
\<close>

definition idOf :: "ApiConfiguration property \<Rightarrow> error + string option" where
  "idOf v = (case v of Missing \<Rightarrow> Inl TypeError | Own p \<Rightarrow> Inr (id' p) | _ \<Rightarrow> Inr None)"



subsection \<open>RenameConfig\<close>

text \<open>
  The loop over \<^verbatim>\<open>Object.entries(modeApiConfigs)\<close> of \<^verbatim>\<open>RenameConfig\<close>. Each round reads
  \<^verbatim>\<open>profiles[oldName].id\<close>, in the profiles as they are after the move. The loop does not
  change \<^verbatim>\<open>profiles\<close>, so it throws in its first round, before any assignment, or not at all.
\<close>

fun renameModes ::
  "ApiConfiguration jsobject \<Rightarrow> string \<Rightarrow> string \<Rightarrow> (string \<times> string) list \<Rightarrow> string jsobject
   \<Rightarrow> error + string jsobject" where
  "renameModes ps oldName newName [] modes = Inr modes"
| "renameModes ps oldName newName ((mode, configId) # rest) modes =
     (case idOf (js_get ps oldName) of
        Inl e \<Rightarrow> Inl e
      | Inr oldId \<Rightarrow>
          if Some configId = oldId then
            (case idOf (js_get ps newName) of
               Inl e \<Rightarrow> Inl e
             | Inr newId \<Rightarrow>
                 renameModes ps oldName newName rest
                   (case newId of None \<Rightarrow> js_delete modes mode | Some i \<Rightarrow> js_set modes mode i))
          else renameModes ps oldName newName rest modes)"

text \<open>
  \<^verbatim>\<open>profiles[newName] = profiles[oldName]\<close> stores what was looked up, own or inherited. An
  inherited function stored as a property is omitted by \<^verbatim>\<open>JSON.stringify\<close> and is not among
  the own properties here; \<^verbatim>\<open>Object.prototype\<close> stored as a property is written as the
  empty object, which reads as a profile without any field. The assignment replaces the
  prototype of \<^verbatim>\<open>profiles\<close> when \<^verbatim>\<open>newName\<close> is \<^verbatim>\<open>__proto__\<close> and is not an own property.
\<close>

definition replacesPrototype :: "ApiConfiguration jsobject \<Rightarrow> string \<Rightarrow> ApiConfiguration property \<Rightarrow> bool" where
  "replacesPrototype ps newName moved =
     (newName = ''__proto__'' \<and> js_own ps newName = None \<and> moved \<noteq> Prototype)"

definition moveProfile ::
  "ApiConfiguration jsobject \<Rightarrow> string \<Rightarrow> ApiConfiguration property \<Rightarrow> ApiConfiguration jsobject" where
  "moveProfile ps newName moved =
     (case moved of
        Own p \<Rightarrow> js_set ps newName p
      | Prototype \<Rightarrow> js_set ps newName (onlyId None)
      | _ \<Rightarrow> ps)"

definition RenameConfig :: "string \<Rightarrow> string \<Rightarrow> manager \<Rightarrow> (error + unit) \<times> manager" where
  "RenameConfig oldName newName m =
     (case readConfig m of
        Inl e \<Rightarrow> (Inl (Failed ''Failed to rename config'' e), m)
      | Inr None \<Rightarrow> (Inl (Failed ''Failed to rename config'' TypeError), m)
      | Inr (Some currentConfig) \<Rightarrow>
          (case profiles currentConfig of
             None \<Rightarrow> (Inl (Failed ''Failed to rename config'' TypeError), m)
           | Some ps \<Rightarrow>
               if js_get ps oldName = Missing then
                 (Inl (Failed ''Failed to rename config'' (ConfigNotFound oldName)), m)
               else
                 (let existingNames = filter (\<lambda>n. n \<noteq> oldName) (js_keys ps);
                      nameValidation = validateProfileName newName existingNames
                  in if \<not> isValid nameValidation then
                       (Inl (Failed ''Failed to rename config''
                              (InvalidProfileName (errors nameValidation))), m)
                     else
                       (let moved = js_get ps oldName;
                            replaced = replacesPrototype ps newName moved;
                            irregular = (replaced \<or> js_own ps oldName = None);
                            ps' = js_delete (moveProfile ps newName moved) oldName;
                            config1 = currentConfig\<lparr>profiles := Some ps'\<rparr>;
                            m1 = mutate (aliased m) m config1
                        in case globalSettings config1 of
                             None \<Rightarrow>
                               if irregular \<and> aliased m then (Inl OutsideModel, m)
                               else (Inl (Failed ''Failed to rename config'' TypeError), m1)
                           | Some gs \<Rightarrow>
                               (let gs1 = (if currentApiConfigName gs = Some oldName
                                           then gs\<lparr>currentApiConfigName := Some newName\<rparr>
                                           else gs);
                                    config2 = config1\<lparr>globalSettings := Some gs1\<rparr>;
                                    m2 = mutate (aliased m) m1 config2
                                in case modeApiConfigs gs1 of
                                     None \<Rightarrow> (Inr (), writeConfig m2 config2)
                                   | Some modes \<Rightarrow>
                                       if replaced \<and> modes \<noteq> [] then (Inl OutsideModel, m)
                                       else
                                         (case renameModes ps' oldName newName modes modes of
                                            Inl e \<Rightarrow> (Inl (Failed ''Failed to rename config'' e), m2)
                                          | Inr modes' \<Rightarrow>
                                              (let config3 = config2\<lparr>globalSettings :=
                                                     Some (gs1\<lparr>modeApiConfigs := Some modes'\<rparr>)\<rparr>
                                               in (Inr (),
                                                   writeConfig (mutate (aliased m) m2 config3)
                                                     config3))))))))"

subsection \<open>SetCurrentConfig and SetModeConfig\<close>



section \<open>Concrete documents\<close>

text \<open>A sequence of identifiers: \<^verbatim>\<open>g\<close>, \<^verbatim>\<open>gz\<close>, \<^verbatim>\<open>gzz\<close>, and so on.\<close>

definition exampleIds :: "nat \<Rightarrow> string" where
  "exampleIds n = CHR ''g'' # replicate n CHR ''z''"

text \<open>A document of the current structure, and a manager whose store holds a document.\<close>

definition currentDocument :: "GlobalSettings \<Rightarrow> ApiConfiguration jsobject \<Rightarrow> ApiConfigData" where
  "currentDocument gs ps = \<lparr>globalSettings = Some gs, profiles = Some ps, apiConfigs = None,
     oldCurrentApiConfigName = None, oldModeApiConfigs = None\<rparr>"

definition storing :: "ApiConfigData \<Rightarrow> manager" where
  "storing d = newManager exampleIds (Some (Json (Document d)))"

text \<open>The document that \<^verbatim>\<open>readConfig\<close> returns, when it returns one.\<close>

definition document :: "manager \<Rightarrow> ApiConfigData option" where
  "document m = (case readConfig m of Inr (Some d) \<Rightarrow> Some d | _ \<Rightarrow> None)"

text \<open>The profile that is an own property of \<^verbatim>\<open>profiles\<close> under a name, when there is one.\<close>

definition storedProfile :: "manager \<Rightarrow> string \<Rightarrow> ApiConfiguration option" where
  "storedProfile m name =
     (case document m of
        None \<Rightarrow> None
      | Some d \<Rightarrow> (case profiles d of None \<Rightarrow> None | Some ps \<Rightarrow> js_own ps name))"

text \<open>A configuration as a caller passes it: profile fields and other fields bundled with them.\<close>

definition asConfiguration :: "ApiConfiguration \<Rightarrow> (string \<times> string) list \<Rightarrow> ApiConfiguration" where
  "asConfiguration p other = p\<lparr>otherFields := other\<rparr>"

text \<open>A store with the single profile \<^verbatim>\<open>a\<close>, and a configuration for Bedrock without secret key.\<close>

definition oneProfile :: manager where
  "oneProfile = storing (currentDocument (onlyCurrent (Some ''a'')) [(''a'', onlyId (Some ''id1''))])"


text \<open>Two saves on that store: first under \<^verbatim>\<open>work\<close>, then under \<^verbatim>\<open>home\<close>.\<close>

definition workConfiguration :: ApiConfiguration where
  "workConfiguration =
     asConfiguration ((onlyId None)\<lparr>apiProvider := Some ''anthropic'', apiKey := Some ''sk-1''\<rparr>)
       [(''soundEnabled'', ''true'')]"

definition homeConfiguration :: ApiConfiguration where
  "homeConfiguration =
     asConfiguration ((onlyId None)\<lparr>apiProvider := Some ''ollama'', ollamaModelId := Some ''llama3''\<rparr>) []"

definition afterWork :: manager where
  "afterWork = snd (SaveConfig exampleIds ''work'' workConfiguration oneProfile)"

definition afterHome :: manager where
  "afterHome = snd (SaveConfig exampleIds ''home'' homeConfiguration afterWork)"









section \<open>Name validation\<close>

lemma trim_Nil [simp]: "trim [] = []"
  by (simp add: trim_def)

text \<open>
  C10. The result of \<^const>\<open>validateProfileName\<close> holds at most one error: of all the rules
  that fail, taken in the order missing, blank after trimming, already existing, longer than
  50, disallowed characters, only the first contributes its message.
\<close>

theorem validateProfileName_first_failure:
  "errors (validateProfileName name existingNames) = take 1 (failed_rules name existingNames) \<and>
   length (errors (validateProfileName name existingNames)) \<le> 1"
  by (simp add: validateProfileName_def failed_rules_def Let_def)

text \<open>A name of 60 characters that also collides reports only that it already exists.\<close>

theorem validateProfileName_first_failure_witness:
  "errors (validateProfileName (replicate 60 CHR ''a'') [''dup'', replicate 60 CHR ''a'']) =
     [''Profile name already exists''] \<and>
   failed_rules (replicate 60 CHR ''a'') [''dup'', replicate 60 CHR ''a''] =
     [''Profile name already exists'', ''Profile name cannot be longer than 50 characters'']"
  using validateProfileName_first_failure
    [of "replicate 60 CHR ''a''" "[''dup'', replicate 60 CHR ''a'']"]
  by (simp add: failed_rules_def trim_def name_pattern_def name_char_def is_letter_def
      is_whitespace_def list_all_iff)

text \<open>
  C9, as stated, fails: the pattern admits every white-space character through \<^verbatim>\<open>\s\<close>, so
  a name with a TAB in it is valid although TAB is outside \<^verbatim>\<open>[A-Za-z0-9 _-]\<close>.
\<close>

theorem validateProfileName_tab_counterexample:
  "isValid (validateProfileName [CHR ''a'', CHR 0x09, CHR ''b''] []) \<and>
   spec_name_invalid [CHR ''a'', CHR 0x09, CHR ''b''] []"
  by (simp add: validateProfileName_def spec_name_invalid_def spec_name_char_def trim_def
      name_pattern_def name_char_def is_letter_def is_digit_def is_whitespace_def)

text \<open>
  C9, amended. A name is invalid exactly when it is empty or blank after trimming, is longer
  than 50 characters, contains a character that is neither a letter, a digit, white space
  (any character of \<^verbatim>\<open>\s\<close>), an underscore nor a hyphen, or is among the existing names.
\<close>

theorem validateProfileName_valid_iff:
  "isValid (validateProfileName name existingNames) =
     (\<not> (trim name = [] \<or> length name > 50 \<or> \<not> list_all name_char name \<or>
         name \<in> set existingNames))"
  by (auto simp add: validateProfileName_def name_pattern_def Let_def)

theorem validateProfileName_valid_iff_witness:
  "isValid (validateProfileName ''my profile_1'' [''default'']) \<and>
   \<not> isValid (validateProfileName ''default'' [''default'']) \<and>
   \<not> isValid (validateProfileName ''a.b'' [''default''])"
  using validateProfileName_valid_iff [of "''my profile_1''" "[''default'']"]
    validateProfileName_valid_iff [of "''default''" "[''default'']"]
    validateProfileName_valid_iff [of "''a.b''" "[''default'']"]
  by (simp add: trim_def name_char_def is_letter_def is_digit_def is_whitespace_def)

section \<open>Objects used as dictionaries\<close>

lemma js_own_None_iff: "js_own obj k = None \<longleftrightarrow> k \<notin> set (js_keys obj)"
  by (simp add: js_own_def js_keys_def map_of_eq_None_iff)




lemma js_get_cases:
  "js_own obj k = None \<Longrightarrow> js_get obj k = Missing \<or> js_get obj k = Function \<or> js_get obj k = Prototype"
  by (simp add: js_get_def)

lemma map_of_insert_index:
  "map_of (insert_index obj k v) k' = (if k' = k then Some v else map_of obj k')"
  by (induction obj) auto

lemma map_of_replace:
  "map_of (map (\<lambda>kv. if fst kv = k then (k, v) else kv) obj) k' =
     (if k' = k then (if k \<in> fst ` set obj then Some v else None) else map_of obj k')"
proof (induction obj)
  case Nil
  then show ?case by simp
next
  case (Cons a obj)
  obtain a1 b where a: "a = (a1, b)" by (cases a)
  show ?case
  proof (cases "a1 = k")
    case True
    with Cons a show ?thesis by simp
  next
    case False
    with Cons a show ?thesis by (auto simp add: rev_image_eqI)
  qed
qed

text \<open>An assignment creates or replaces the own property, except for a new \<^verbatim>\<open>__proto__\<close>.\<close>

lemma js_own_js_set:
  "js_own (js_set obj k v) k' =
     (if k' = k \<and> (k \<noteq> ''__proto__'' \<or> js_own obj k \<noteq> None) then Some v else js_own obj k')"
proof (cases "k \<in> set (js_keys obj)")
  case True
  then have "js_own obj k \<noteq> None" by (simp add: js_own_None_iff)
  with True show ?thesis
    by (simp add: js_own_def js_set_def js_keys_def map_of_replace)
next
  case False
  then have "map_of obj k = None"
    by (simp add: js_keys_def map_of_eq_None_iff)
  with False show ?thesis
    by (simp add: js_own_def js_set_def map_of_insert_index map_add_def split: option.splits)
qed

lemma js_keys_replace: "map fst (map (\<lambda>kv. if fst kv = k then (k, v) else kv) obj) = map fst obj"
  by (induction obj) auto

lemma js_keys_js_set_existing: "k \<in> set (js_keys obj) \<Longrightarrow> js_keys (js_set obj k v) = js_keys obj"
  by (simp add: js_set_def js_keys_def js_keys_replace)

lemma set_insert_index: "fst ` set (insert_index obj k v) = insert k (fst ` set obj)"
  by (induction obj) auto


lemma distinct_insert_index:
  "k \<notin> set (map fst obj) \<Longrightarrow> distinct (map fst obj) \<Longrightarrow> distinct (map fst (insert_index obj k v))"
proof (induction obj)
  case Nil
  then show ?case by simp
next
  case (Cons a obj)
  then have "fst a \<notin> fst ` set (insert_index obj k v)"
    unfolding set_insert_index by auto
  with Cons show ?case by auto
qed

lemma distinct_js_set: "distinct (js_keys obj) \<Longrightarrow> distinct (js_keys (js_set obj k v))"
proof (cases "k \<in> set (js_keys obj)")
  case True
  assume "distinct (js_keys obj)"
  with True show ?thesis by (simp only: js_keys_js_set_existing)
next
  case False
  assume "distinct (js_keys obj)"
  with False show ?thesis
    by (simp add: js_set_def js_keys_def distinct_insert_index)
qed


lemma js_keys_js_delete: "js_keys (js_delete obj k) = filter (\<lambda>n. n \<noteq> k) (js_keys obj)"
  by (induction obj) (auto simp add: js_keys_def js_delete_def)

lemma distinct_js_delete: "distinct (js_keys obj) \<Longrightarrow> distinct (js_keys (js_delete obj k))"
  by (simp add: js_keys_js_delete)






section \<open>The configuration manager on concrete documents\<close>

lemmas manager_defs = newManager_def readConfig_def writeConfig_def aliased_def mutate_def warn_def
  generateId_def exampleIds_def currentDocument_def storing_def document_def storedProfile_def

lemmas name_defs = validateProfileName_def trim_def name_pattern_def name_char_def is_letter_def
  is_digit_def is_whitespace_def is_array_index_def

lemmas object_defs = js_get_def js_own_def js_keys_def js_set_def js_delete_def prototype_names_def
  idOf_def asSettings_def moveProfile_def replacesPrototype_def

text \<open>
  C5. With nothing in the store, \<^const>\<open>readConfig\<close> returns \<^verbatim>\<open>defaultConfig\<close>, which is not
  falsy, so \<^const>\<open>initConfig\<close> never reaches the branch that writes the default document:
  it returns normally and the store is as empty as before.
\<close>

theorem initConfig_empty_store_writes_nothing:
  "initConfig exampleIds (newManager exampleIds None) = (Inr (), newManager exampleIds None)"
  by (simp add: initConfig_def migrateOld_def ensureAllIds_def ensureGlobalSettings_def manager_defs
      onlyId_def onlyCurrent_def truthy_def)

text \<open>
  C3. Renaming the only profile of a fresh manager to its own name succeeds and persists a
  document with no profile at all, whose \<^verbatim>\<open>currentApiConfigName\<close> is still \<^verbatim>\<open>default\<close>: the
  assignment \<^verbatim>\<open>profiles[newName] = profiles[oldName]\<close> changes nothing and the \<^verbatim>\<open>delete\<close> that
  follows removes the profile.
\<close>

theorem rename_same_name_empties_profiles:
  "fst (RenameConfig ''default'' ''default'' (newManager exampleIds None)) = Inr () \<and>
   secrets (snd (RenameConfig ''default'' ''default'' (newManager exampleIds None))) =
     Some (Json (Document (currentDocument (onlyCurrent (Some ''default'')) [])))"
  by (simp add: RenameConfig_def manager_defs onlyCurrent_def object_defs name_defs Let_def)

text \<open>
  C4. With one mode bound, renaming profile \<^verbatim>\<open>a\<close> to the unused, valid name \<^verbatim>\<open>b\<close> does not
  succeed: the loop over the mode bindings reads \<^verbatim>\<open>profiles[oldName].id\<close> after
  \<^verbatim>\<open>profiles[oldName]\<close> has been deleted. The call fails with a \<^verbatim>\<open>TypeError\<close> and nothing is
  written.
\<close>

theorem rename_with_mode_binding_fails:
  "RenameConfig ''a'' ''b''
     (storing (currentDocument ((onlyCurrent (Some ''a''))\<lparr>modeApiConfigs := Some [(''code'', ''id1'')]\<rparr>)
        [(''a'', onlyId (Some ''id1''))])) =
   (Inl (Failed ''Failed to rename config'' TypeError),
    storing (currentDocument ((onlyCurrent (Some ''a''))\<lparr>modeApiConfigs := Some [(''code'', ''id1'')]\<rparr>)
        [(''a'', onlyId (Some ''id1''))]))"
  by (simp add: RenameConfig_def manager_defs onlyCurrent_def object_defs name_defs Let_def)

lemmas config_defs = asConfiguration_def profileSettingsToApiConfig_def onlyId_def onlyCurrent_def

lemmas settings_defs = validateProfileSettings_def validateProfileTransition_def requiredField_def
  truthy_def requiresReauth_def includes_provider_def extractProfileSettings_def

section \<open>Reading and writing the document\<close>


lemma document_writeConfig [simp]: "document (writeConfig m config) = Some config"
  by (simp add: document_def readConfig_def writeConfig_def)

lemma hd_remaining_nonempty:
  assumes "[] \<notin> set (js_keys ps)" "js_delete ps name \<noteq> []"
  shows "hd (js_keys (js_delete ps name)) \<noteq> []"
proof -
  from assms(2) have "js_keys (js_delete ps name) \<noteq> []" by (simp add: js_keys_def)
  then have "hd (js_keys (js_delete ps name)) \<in> set (js_keys (js_delete ps name))" by simp
  then have "hd (js_keys (js_delete ps name)) \<in> set (js_keys ps)" by (simp add: js_keys_js_delete)
  with assms(1) show ?thesis by metis
qed

lemma readConfig_writeConfig [simp]: "readConfig (writeConfig m config) = Inr (Some config)"
  by (simp add: readConfig_def writeConfig_def)

lemma secrets_writeConfig [simp]: "secrets (writeConfig m config) = Some (Json (Document config))"
  by (simp add: writeConfig_def)

section \<open>DeleteConfig\<close>




section \<open>SaveConfig\<close>

lemma SaveConfig_success:
  assumes "SaveConfig rng name config m = (Inr (), m')"
  shows "\<exists>doc ps. document m = Some doc \<and> profiles doc = Some ps \<and>
           secrets m' = Some (Json (Document
             (doc\<lparr>profiles := Some (js_set ps name (fst (extractProfileSettings rng config m)))\<rparr>)))"
  using assms
  by (auto simp add: SaveConfig_def document_def Let_def
      split: sum.splits option.splits if_splits prod.splits)

lemma storedProfile_secrets:
  "secrets m = Some (Json (Document doc)) \<Longrightarrow> profiles doc = Some ps \<Longrightarrow>
   storedProfile m name = js_own ps name"
  by (simp add: storedProfile_def document_def readConfig_def)

lemma storedProfile_document:
  "document m = Some doc \<Longrightarrow> profiles doc = Some ps \<Longrightarrow> storedProfile m name = js_own ps name"
  by (simp add: storedProfile_def)

lemma SaveConfig_storedProfile:
  assumes "SaveConfig rng name config m = (Inr (), m')"
  shows "storedProfile m' other =
           (if other = name \<and> (name \<noteq> ''__proto__'' \<or> storedProfile m name \<noteq> None)
            then Some (fst (extractProfileSettings rng config m))
            else storedProfile m other)"
proof -
  from SaveConfig_success [OF assms] obtain doc ps where
    d: "document m = Some doc" and p: "profiles doc = Some ps" and
    d': "secrets m' = Some (Json (Document
           (doc\<lparr>profiles := Some (js_set ps name (fst (extractProfileSettings rng config m)))\<rparr>)))"
    by blast
  show ?thesis
    by (simp add: storedProfile_secrets [OF d'] storedProfile_document [OF d p] js_own_js_set)
qed

lemma extractProfileSettings_otherFields:
  "extractProfileSettings rng (config\<lparr>otherFields := other\<rparr>) m = extractProfileSettings rng config m"
  by (simp add: extractProfileSettings_def)

lemma extractProfileSettings_no_other:
  "otherFields (fst (extractProfileSettings rng config m)) = []"
  by (simp add: extractProfileSettings_def split: option.splits prod.splits)

text \<open>
  C8. A successful \<^const>\<open>SaveConfig\<close> writes to the store the document it read with nothing
  changed but the profiles: every profile under another name is as before, and a profile
  stored under the name is the extracted settings, which are stored whenever the name is not
  \<^verbatim>\<open>__proto__\<close>. The extracted settings carry none of the other fields bundled into the
  configuration and do not depend on them. Hence, after a save under one name, a successful
  save under another name leaves the profile stored under the first as it was.
\<close>

theorem SaveConfig_frame:
  "(SaveConfig rng name config m = (Inr (), m') \<longrightarrow>
      (\<exists>doc ps ps'. document m = Some doc \<and> profiles doc = Some ps \<and>
         secrets m' = Some (Json (Document (doc\<lparr>profiles := Some ps'\<rparr>))) \<and>
         (\<forall>other. other \<noteq> name \<longrightarrow> js_own ps' other = js_own ps other) \<and>
         (\<forall>p. js_own ps' name = Some p \<longrightarrow> p = fst (extractProfileSettings rng config m)) \<and>
         (name \<noteq> ''__proto__'' \<longrightarrow>
            js_own ps' name = Some (fst (extractProfileSettings rng config m))))) \<and>
   otherFields (fst (extractProfileSettings rng config m)) = [] \<and>
   extractProfileSettings rng (config\<lparr>otherFields := bundled\<rparr>) m = extractProfileSettings rng config m \<and>
   (SaveConfig rng a cfgA m = (Inr (), m1) \<and> SaveConfig rng b cfgB m1 = (Inr (), m2) \<and> a \<noteq> b \<longrightarrow>
      storedProfile m2 a = storedProfile m1 a)"
proof (intro conjI impI)
  assume s: "SaveConfig rng name config m = (Inr (), m')"
  let ?x = "fst (extractProfileSettings rng config m)"
  from SaveConfig_success [OF s] obtain doc ps where
    d: "document m = Some doc" and p: "profiles doc = Some ps" and
    d': "secrets m' = Some (Json (Document (doc\<lparr>profiles := Some (js_set ps name ?x)\<rparr>)))"
    by blast
  have 1: "\<forall>other. other \<noteq> name \<longrightarrow> js_own (js_set ps name ?x) other = js_own ps other"
    by (simp add: js_own_js_set)
  have 2: "\<forall>q. js_own (js_set ps name ?x) name = Some q \<longrightarrow> q = ?x"
    by (auto simp add: js_own_js_set split: if_splits)
  have 3: "name \<noteq> ''__proto__'' \<longrightarrow> js_own (js_set ps name ?x) name = Some ?x"
    by (simp add: js_own_js_set)
  from d p d' 1 2 3
  show "\<exists>doc ps ps'. document m = Some doc \<and> profiles doc = Some ps \<and>
         secrets m' = Some (Json (Document (doc\<lparr>profiles := Some ps'\<rparr>))) \<and>
         (\<forall>other. other \<noteq> name \<longrightarrow> js_own ps' other = js_own ps other) \<and>
         (\<forall>p. js_own ps' name = Some p \<longrightarrow> p = fst (extractProfileSettings rng config m)) \<and>
         (name \<noteq> ''__proto__'' \<longrightarrow>
            js_own ps' name = Some (fst (extractProfileSettings rng config m)))"
    by blast
next
  show "otherFields (fst (extractProfileSettings rng config m)) = []"
    by (rule extractProfileSettings_no_other)
next
  show "extractProfileSettings rng (config\<lparr>otherFields := bundled\<rparr>) m = extractProfileSettings rng config m"
    by (rule extractProfileSettings_otherFields)
next
  assume two: "SaveConfig rng a cfgA m = (Inr (), m1) \<and> SaveConfig rng b cfgB m1 = (Inr (), m2) \<and> a \<noteq> b"
  then have second: "SaveConfig rng b cfgB m1 = (Inr (), m2)" and ab: "a \<noteq> b"
    by simp_all
  from ab show "storedProfile m2 a = storedProfile m1 a"
    by (simp add: SaveConfig_storedProfile [OF second])
qed

text \<open>Two saves on a store that holds the profile \<^verbatim>\<open>a\<close>: under \<^verbatim>\<open>work\<close>, then under \<^verbatim>\<open>home\<close>.\<close>

theorem SaveConfig_frame_witness:
  "SaveConfig exampleIds ''work'' workConfiguration oneProfile = (Inr (), afterWork) \<and>
   SaveConfig exampleIds ''home'' homeConfiguration afterWork = (Inr (), afterHome) \<and>
   storedProfile afterWork ''a'' = storedProfile oneProfile ''a'' \<and>
   storedProfile afterWork ''work'' =
     Some ((onlyId (Some ''gz''))\<lparr>apiProvider := Some ''anthropic'', apiKey := Some ''sk-1''\<rparr>) \<and>
   storedProfile afterHome ''work'' = storedProfile afterWork ''work''"
proof -
  have 1: "SaveConfig exampleIds ''work'' workConfiguration oneProfile = (Inr (), afterWork)"
    by (simp add: afterWork_def oneProfile_def workConfiguration_def prod_eq_iff SaveConfig_def
        manager_defs config_defs settings_defs object_defs name_defs Let_def)
  have 2: "SaveConfig exampleIds ''home'' homeConfiguration afterWork = (Inr (), afterHome)"
    by (simp add: afterHome_def afterWork_def oneProfile_def workConfiguration_def homeConfiguration_def
        prod_eq_iff SaveConfig_def manager_defs config_defs settings_defs object_defs name_defs Let_def)
  have 3: "storedProfile afterWork ''work'' =
     Some ((onlyId (Some ''gz''))\<lparr>apiProvider := Some ''anthropic'', apiKey := Some ''sk-1''\<rparr>) \<and>
     storedProfile afterWork ''a'' = storedProfile oneProfile ''a''"
    by (simp add: afterWork_def oneProfile_def workConfiguration_def SaveConfig_def
        manager_defs config_defs settings_defs object_defs name_defs Let_def)
  from SaveConfig_frame [where rng = exampleIds and name = "''work''" and config = workConfiguration
      and m = oneProfile and m' = afterWork and a = "''work''" and cfgA = workConfiguration
      and ?m1.0 = afterWork and b = "''home''" and cfgB = homeConfiguration and ?m2.0 = afterHome
      and bundled = "[]"]
    1 2 3
  show ?thesis by simp
qed

section \<open>Settings that fail validation\<close>




section \<open>Profiles that an operation does not touch\<close>

lemma readConfig_cong:
  "secrets m' = secrets m \<Longrightarrow> defaultConfig m' = defaultConfig m \<Longrightarrow> readConfig m' = readConfig m"
  by (simp add: readConfig_def split: option.splits content.splits parsed.splits)

lemma storedProfile_cong:
  "secrets m' = secrets m \<Longrightarrow> defaultConfig m' = defaultConfig m \<Longrightarrow>
   storedProfile m' name = storedProfile m name"
  using readConfig_cong [of m' m] by (simp add: storedProfile_def document_def)

lemma secrets_mutate [simp]: "secrets (mutate al m config) = secrets m"
  by (simp add: mutate_def)



lemma storedProfile_warn [simp]: "storedProfile (warn m line) name = storedProfile m name"
  by (rule storedProfile_cong) (simp_all add: warn_def)
















section \<open>Identifiers under SaveConfig and RenameConfig\<close>






section \<open>Migration of the old structure\<close>








end
